theory Spec2Isabelle
  imports Main
begin

section \<open>Go values, errors and standard output\<close>

text \<open>
  Errors are values. \<open>Failure\<close> carries the text of an ordinary Go \<open>error\<close>;
  \<open>Panic\<close> stands for a run-time panic (a failed type assertion \<open>x.(T)\<close> or an
  index out of range), which ends the function without a result; \<open>SkipDir\<close> and
  \<open>SkipAll\<close> are the two sentinel errors of \<open>path/filepath\<close>.
\<close>

datatype error = Failure string | Panic | SkipDir | SkipAll

text \<open>
  A value of Go's \<open>any\<close> as \<open>sigs.k8s.io/yaml\<close> decodes it: \<open>nil\<close>, a bool, a
  number (decoded as \<open>float64\<close>; the checks never look at its payload), a string, a
  \<open>[]any\<close> or a \<open>map[string]any\<close>. A map is an association list read with
  \<open>map_of\<close>.
\<close>

datatype any =
    ANil
  | ABool bool
  | AFloat int
  | AString string
  | ASlice "any list"
  | AMap "(string \<times> any) list"

type_synonym gomap = "(string \<times> any) list"

text \<open>\<open>m[k]\<close> on a \<open>map[string]any\<close>: the zero value \<open>nil\<close> when the key is missing.\<close>

definition index :: "gomap \<Rightarrow> string \<Rightarrow> any" where
  "index m k = (case map_of m k of None \<Rightarrow> ANil | Some v \<Rightarrow> v)"

text \<open>The one-result type assertions \<open>v.(map[string]any)\<close> and \<open>v.(string)\<close> panic on
  any other dynamic type (also on \<open>nil\<close>); the two-result form \<open>v.([]any)\<close> does not.\<close>

definition asMap :: "any \<Rightarrow> error + gomap" where
  "asMap v = (case v of AMap m \<Rightarrow> Inr m | _ \<Rightarrow> Inl Panic)"

definition asString :: "any \<Rightarrow> error + string" where
  "asString v = (case v of AString s \<Rightarrow> Inr s | _ \<Rightarrow> Inl Panic)"

definition asSlice_ok :: "any \<Rightarrow> any list option" where
  "asSlice_ok v = (case v of ASlice xs \<Rightarrow> Some xs | _ \<Rightarrow> None)"

text \<open>
  Standard output is the list of the calls made on it: \<open>fmt.Print(s)\<close> with its
  string, \<open>fmt.Printf(format, args...)\<close> with its format and its operands. An operand
  is a Go string or an \<open>any\<close> taken from a decoded document.
\<close>

datatype arg = S string | A any

datatype out = Print string | Printf string "arg list"

text \<open>A statement's effect: what it printed, and the error that ended it (\<open>None\<close> is
  Go's \<open>nil\<close>).\<close>

type_synonym result = "out list \<times> error option"

definition andThen :: "result \<Rightarrow> result \<Rightarrow> result" where
  "andThen r1 r2 = (case snd r1 of Some e \<Rightarrow> r1 | None \<Rightarrow> (fst r1 @ fst r2, snd r2))"

fun forEach :: "('a \<Rightarrow> result) \<Rightarrow> 'a list \<Rightarrow> result" where
  "forEach body [] = ([], None)"
| "forEach body (x # xs) = andThen (body x) (forEach body xs)"

section \<open>The functions of package strings\<close>

fun HasPrefix :: "string \<Rightarrow> string \<Rightarrow> bool" where
  "HasPrefix s [] = True"
| "HasPrefix [] (p # ps) = False"
| "HasPrefix (c # cs) (p # ps) = (c = p \<and> HasPrefix cs ps)"

definition HasSuffix :: "string \<Rightarrow> string \<Rightarrow> bool" where
  "HasSuffix s suffix = HasPrefix (rev s) (rev suffix)"

fun Contains :: "string \<Rightarrow> string \<Rightarrow> bool" where
  "Contains [] substr = (substr = [])"
| "Contains (c # cs) substr = (HasPrefix (c # cs) substr \<or> Contains cs substr)"

text \<open>\<open>strings.Split(s, sep)\<close> for a separator that is not empty (the rules split at
  \<open>"---"\<close> only; Go's splitting into characters at an empty separator is not
  modelled): cut at every occurrence of \<open>sep\<close>, found from the left and not
  overlapping. \<open>cur\<close> is the piece being read.\<close>

function splitFrom :: "string \<Rightarrow> string \<Rightarrow> string \<Rightarrow> string list" where
  "splitFrom sep cur [] = [cur]"
| "splitFrom sep cur (c # cs) =
     (if sep \<noteq> [] \<and> HasPrefix (c # cs) sep
      then cur # splitFrom sep [] (drop (length sep) (c # cs))
      else splitFrom sep (cur @ [c]) cs)"
  by pat_completeness auto
termination
  by (relation "measure (\<lambda>(sep, cur, s). length s)") auto

definition Split :: "string \<Rightarrow> string \<Rightarrow> string list" where
  "Split s sep = splitFrom sep [] s"

section \<open>Rendering the templates\<close>

text \<open>
  \<open>values.Options\<close> with the two fields the rules set. The chart, the merged values
  and the calls into Helm and the YAML decoder (\<open>MergeValues\<close>,
  \<open>ProcessDependenciesWithMerge\<close>, \<open>CoalesceValues\<close>, \<open>engine.Render\<close>,
  \<open>yaml.Unmarshal\<close>) are parameters. The rendered files are Go's
  \<open>map[string]string\<close>, as the list of its entries in the order in which \<open>range\<close>
  visits them.

  \<open>ProcessDependenciesWithMerge\<close> updates the chart it is given in place, so here it
  returns the updated chart, which \<open>CoalesceValues\<close> and \<open>Render\<close> then read. Each
  rule calls \<open>getTemplateFile\<close> on its own copy of the chart struct and drops the
  updated copy. What Helm changes through the pointers that the copy shares with the
  original (the metadata, the dependency charts) is not part of this model.
\<close>

record Options =
  Values :: "string list"
  JSONValues :: "string list"

type_synonym files = "(string \<times> string) list"

record ('chart, 'vals) helm_lib =
  MergeValues :: "Options \<Rightarrow> error + 'vals"
  ProcessDependenciesWithMerge :: "'chart \<Rightarrow> 'vals \<Rightarrow> error + 'chart"
  CoalesceValues :: "'chart \<Rightarrow> 'vals \<Rightarrow> error + 'vals"
  Render :: "'chart \<Rightarrow> 'vals \<Rightarrow> error + files"
  Unmarshal :: "string \<Rightarrow> error + gomap"

definition getTemplateFile ::
  "('chart, 'vals) helm_lib \<Rightarrow> 'chart \<Rightarrow> Options \<Rightarrow> error + files" where
  "getTemplateFile lib chartRequested valueOpts =
     (case MergeValues lib valueOpts of
        Inl err \<Rightarrow> Inl err
      | Inr vals \<Rightarrow>
          (case ProcessDependenciesWithMerge lib chartRequested vals of
             Inl err \<Rightarrow> Inl err
           | Inr processed \<Rightarrow>
               (case CoalesceValues lib processed vals of
                  Inl err \<Rightarrow> Inl err
                | Inr topVals \<Rightarrow> Render lib processed topVals)))"

definition isYaml :: "string \<Rightarrow> bool" where
  "isYaml name = (HasSuffix name ''.yaml'' \<or> HasSuffix name ''.yml'')"

section \<open>Rule A: the declared images\<close>

definition nl :: string where
  "nl = [CHR 0x0A]"

text \<open>The inner loop with its \<open>goto found\<close>: true when some YAML file holds the image.\<close>

fun foundIn :: "files \<Rightarrow> string \<Rightarrow> bool" where
  "foundIn [] img = False"
| "foundIn ((name, content) # fs) img =
     (if \<not> isYaml name then foundIn fs img
      else if Contains content img then True
      else foundIn fs img)"

definition lintImage :: "files \<Rightarrow> string \<Rightarrow> result" where
  "lintImage fs img =
     (if foundIn fs img then ([], None)
      else ([Printf (''ERROR: image %s has not found'' @ nl) [S img]], None))"

definition lintExtensionsImages ::
  "('chart, 'vals) helm_lib \<Rightarrow> 'chart \<Rightarrow> string \<Rightarrow> string list \<Rightarrow> result" where
  "lintExtensionsImages lib charts extension images =
     andThen ([Print (nl @ ''Info: lint images'' @ nl)], None)
       (if length images = 0
        then ([Printf (''WARNING: extension %s has no images'' @ nl) [S extension]], None)
        else (case getTemplateFile lib charts \<lparr>Values = [], JSONValues = []\<rparr> of
                Inl err \<Rightarrow> ([], Some err)
              | Inr fs \<Rightarrow> andThen (forEach (lintImage fs) images) ([], None)))"

section \<open>Rule B: the global node selector\<close>

text \<open>\<open>m[k1].(map[string]any)[k2].(map[string]any)...\<close>: every step is asserted to be
  a map, the last one too.\<close>

fun mapAt :: "gomap \<Rightarrow> string list \<Rightarrow> error + gomap" where
  "mapAt m [] = Inr m"
| "mapAt m (k # ks) = (case asMap (index m k) of Inl e \<Rightarrow> Inl e | Inr m' \<Rightarrow> mapAt m' ks)"

text \<open>The condition of the three \<open>if\<close>s, on the pod spec reached:
  \<open>ps["nodeSelector"] == nil || ps["nodeSelector"].(map[string]any)["kubernetes.io/os"] != key\<close>.
  An \<open>any\<close> differs from the string \<open>key\<close> unless it holds that very string.\<close>

definition selectorFails :: "string \<Rightarrow> gomap \<Rightarrow> error + bool" where
  "selectorFails key podSpec =
     (if index podSpec ''nodeSelector'' = ANil then Inr True
      else (case asMap (index podSpec ''nodeSelector'') of
              Inl e \<Rightarrow> Inl e
            | Inr sel \<Rightarrow> Inr (index sel ''kubernetes.io/os'' \<noteq> AString key)))"

text \<open>The last two operands of every finding:
  \<open>yamlMap["kind"], yamlMap["metadata"].(map[string]any)["name"]\<close>.\<close>

definition resourceArgs :: "gomap \<Rightarrow> error + arg list" where
  "resourceArgs yamlMap =
     (case asMap (index yamlMap ''metadata'') of
        Inl e \<Rightarrow> Inl e
      | Inr md \<Rightarrow> Inr [A (index yamlMap ''kind''), A (index md ''name'')])"

definition fmtSelector :: string where
  "fmtSelector = ''ERROR: golobal.nodeSelector doesn't work in extension: %s file: %s Resource: {kind %s, name:%s }'' @ nl"

definition checkSelector :: "string \<Rightarrow> string \<Rightarrow> string \<Rightarrow> gomap \<Rightarrow> string list \<Rightarrow> result" where
  "checkSelector key extension name yamlMap path =
     (case mapAt yamlMap path of
        Inl e \<Rightarrow> ([], Some e)
      | Inr podSpec \<Rightarrow>
          (case selectorFails key podSpec of
             Inl e \<Rightarrow> ([], Some e)
           | Inr fails \<Rightarrow>
               if fails
               then (case resourceArgs yamlMap of
                       Inl e \<Rightarrow> ([], Some e)
                     | Inr as \<Rightarrow> ([Printf fmtSelector ([S extension, S name] @ as)], None))
               else ([], None)))"

text \<open>The \<open>switch yamlMap["kind"]\<close> of \<open>lintGlobalNodeSelector\<close>.\<close>

definition selectorDoc :: "string \<Rightarrow> string \<Rightarrow> string \<Rightarrow> gomap \<Rightarrow> result" where
  "selectorDoc key extension name yamlMap =
     (let kind = index yamlMap ''kind'' in
      if kind = AString ''Deployment'' \<or> kind = AString ''StatefulSet''
           \<or> kind = AString ''ReplicaSet'' \<or> kind = AString ''Job''
      then checkSelector key extension name yamlMap [''spec'', ''template'', ''spec'']
      else if kind = AString ''Pod''
      then checkSelector key extension name yamlMap [''spec'']
      else if kind = AString ''CronJob''
      then checkSelector key extension name yamlMap
             [''spec'', ''jobTemplate'', ''spec'', ''template'', ''spec'']
      else ([], None))"

definition selectorYaml ::
  "('chart, 'vals) helm_lib \<Rightarrow> string \<Rightarrow> string \<Rightarrow> string \<Rightarrow> string \<Rightarrow> result" where
  "selectorYaml lib key extension name y =
     (case Unmarshal lib y of
        Inl err \<Rightarrow> ([], Some err)
      | Inr yamlMap \<Rightarrow> selectorDoc key extension name yamlMap)"

definition selectorFile ::
  "('chart, 'vals) helm_lib \<Rightarrow> string \<Rightarrow> string \<Rightarrow> string \<times> string \<Rightarrow> result" where
  "selectorFile lib key extension f =
     (case f of (name, content) \<Rightarrow>
        if \<not> isYaml name then ([], None)
        else forEach (selectorYaml lib key extension name) (Split content ''---''))"

definition selectorOpts :: "string \<Rightarrow> Options" where
  "selectorOpts key =
     \<lparr>Values = [],
      JSONValues = [''global.nodeSelector={'' @ [CHR 0x22] @ ''kubernetes.io/os'' @ [CHR 0x22]
                      @ '': '' @ [CHR 0x22] @ key @ [CHR 0x22] @ ''}'']\<rparr>"

text \<open>\<open>key\<close> is what \<open>rand.String(12)\<close> returned.\<close>

definition lintGlobalNodeSelector ::
  "('chart, 'vals) helm_lib \<Rightarrow> string \<Rightarrow> 'chart \<Rightarrow> string \<Rightarrow> result" where
  "lintGlobalNodeSelector lib key charts extension =
     andThen ([Print (nl @ ''Info: lint global.nodeSelector'' @ nl)], None)
       (case getTemplateFile lib charts (selectorOpts key) of
          Inl err \<Rightarrow> ([], Some err)
        | Inr fs \<Rightarrow> andThen (forEach (selectorFile lib key extension) fs) ([], None))"

section \<open>Rule C: the global image registry\<close>

definition fmtInitContainer :: string where
  "fmtInitContainer = ''ERROR: golobal.imageRegistry doesn't work in init-cotainer %s of extension: %s file: %s Resource: {kind %s, name:%s }'' @ nl"

definition fmtContainer :: string where
  "fmtContainer = ''ERROR: golobal.imageRegistry doesn't work in cotainer %s of extension: %s file: %s Resource: {kind %s, name:%s }'' @ nl"

text \<open>The body of the loops over the containers.\<close>

definition checkContainer ::
  "string \<Rightarrow> string \<Rightarrow> string \<Rightarrow> string \<Rightarrow> gomap \<Rightarrow> any \<Rightarrow> result" where
  "checkContainer fmt key extension name yamlMap c =
     (case asMap c of
        Inl e \<Rightarrow> ([], Some e)
      | Inr cm \<Rightarrow>
          (case asString (index cm ''image'') of
             Inl e \<Rightarrow> ([], Some e)
           | Inr img \<Rightarrow>
               if \<not> Contains img key
               then (case resourceArgs yamlMap of
                       Inl e \<Rightarrow> ([], Some e)
                     | Inr as \<Rightarrow>
                         ([Printf fmt ([A (index cm ''name''), S extension, S name] @ as)], None))
               else ([], None)))"

text \<open>\<open>if cs, ok := v.([]any); ok { for _, c := range cs { ... } }\<close>\<close>

definition checkContainers ::
  "string \<Rightarrow> string \<Rightarrow> string \<Rightarrow> string \<Rightarrow> gomap \<Rightarrow> any \<Rightarrow> result" where
  "checkContainers fmt key extension name yamlMap v =
     (case asSlice_ok v of
        None \<Rightarrow> ([], None)
      | Some cs \<Rightarrow> forEach (checkContainer fmt key extension name yamlMap) cs)"

definition checkImages :: "string \<Rightarrow> string \<Rightarrow> string \<Rightarrow> gomap \<Rightarrow> string list \<Rightarrow> result" where
  "checkImages key extension name yamlMap path =
     (case mapAt yamlMap path of
        Inl e \<Rightarrow> ([], Some e)
      | Inr podSpec \<Rightarrow>
          andThen
            (checkContainers fmtInitContainer key extension name yamlMap
               (index podSpec ''initContainers''))
            (checkContainers fmtContainer key extension name yamlMap
               (index podSpec ''containers'')))"

text \<open>The \<open>switch yamlMap["kind"]\<close> of \<open>lintGlobalImageRegistry\<close>.\<close>

definition registryDoc :: "string \<Rightarrow> string \<Rightarrow> string \<Rightarrow> gomap \<Rightarrow> result" where
  "registryDoc key extension name yamlMap =
     (let kind = index yamlMap ''kind'' in
      if kind = AString ''Deployment'' \<or> kind = AString ''StatefulSet''
           \<or> kind = AString ''DaemonSet'' \<or> kind = AString ''ReplicaSet''
           \<or> kind = AString ''Job''
      then checkImages key extension name yamlMap [''spec'', ''template'', ''spec'']
      else if kind = AString ''Pod''
      then checkImages key extension name yamlMap [''spec'']
      else if kind = AString ''CronJob''
      then checkImages key extension name yamlMap
             [''spec'', ''jobTemplate'', ''spec'', ''template'', ''spec'']
      else ([], None))"

definition registryYaml ::
  "('chart, 'vals) helm_lib \<Rightarrow> string \<Rightarrow> string \<Rightarrow> string \<Rightarrow> string \<Rightarrow> result" where
  "registryYaml lib key extension name y =
     (case Unmarshal lib y of
        Inl err \<Rightarrow> ([], Some err)
      | Inr yamlMap \<Rightarrow> registryDoc key extension name yamlMap)"

definition registryFile ::
  "('chart, 'vals) helm_lib \<Rightarrow> string \<Rightarrow> string \<Rightarrow> string \<times> string \<Rightarrow> result" where
  "registryFile lib key extension f =
     (case f of (name, content) \<Rightarrow>
        if \<not> isYaml name then ([], None)
        else forEach (registryYaml lib key extension name) (Split content ''---''))"

definition registryOpts :: "string \<Rightarrow> Options" where
  "registryOpts key = \<lparr>Values = [''global.imageRegistry='' @ key], JSONValues = []\<rparr>"

definition lintGlobalImageRegistry ::
  "('chart, 'vals) helm_lib \<Rightarrow> string \<Rightarrow> 'chart \<Rightarrow> string \<Rightarrow> result" where
  "lintGlobalImageRegistry lib key charts extension =
     andThen ([Print (nl @ ''Info: lint global.imageRegistry'' @ nl)], None)
       (case getTemplateFile lib charts (registryOpts key) of
          Inl err \<Rightarrow> ([], Some err)
        | Inr fs \<Rightarrow> andThen (forEach (registryFile lib key extension) fs) ([], None))"

section \<open>Walking a directory tree\<close>

text \<open>
  What \<open>os.Lstat\<close> and the directory reads find at a path: nothing (\<open>Lstat\<close> fails),
  a file, a directory whose names cannot be read, or a directory with its entries in
  the order \<open>readDirNames\<close> gives them. \<open>filepath.Join\<close>, \<open>filepath.Dir\<close> and the base
  name of a root are parameters.
\<close>

datatype fsnode =
    Missing error
  | File
  | Unreadable error
  | Directory "(string \<times> fsnode) list"

datatype fileinfo = FileInfo (Name: string) (IsDir: bool)

record filesystem =
  Join :: "string \<Rightarrow> string \<Rightarrow> string"
  Dir :: "string \<Rightarrow> string"
  Base :: "string \<Rightarrow> string"
  Lstat :: "string \<Rightarrow> fsnode"

text \<open>A \<open>filepath.WalkFunc\<close> that also updates the variables it closes over.\<close>

type_synonym 's WalkFunc = "string \<Rightarrow> fileinfo option \<Rightarrow> error option \<Rightarrow> 's \<Rightarrow> error option \<times> 's"

text \<open>
  \<open>filepath.walk\<close> of the standard library. \<open>visit\<close> is one path whose \<open>Lstat\<close> has
  been tried: when it failed the function is called with a nil info and the error,
  otherwise \<open>walk\<close> runs: a file is handed to the function; a directory is handed to
  it together with the error of reading its names, and its entries are visited only
  when both that error and the function's result are nil. \<open>visitAll\<close> is the loop
  over the names: it stops at the first error, except a \<open>SkipDir\<close> that comes from
  anything but a file.
\<close>

fun visit :: "(string \<Rightarrow> string \<Rightarrow> string) \<Rightarrow> 's WalkFunc \<Rightarrow> string \<Rightarrow> string \<Rightarrow> fsnode \<Rightarrow> 's \<Rightarrow> error option \<times> 's"
and visitAll :: "(string \<Rightarrow> string \<Rightarrow> string) \<Rightarrow> 's WalkFunc \<Rightarrow> string \<Rightarrow> (string \<times> fsnode) list \<Rightarrow> 's \<Rightarrow> error option \<times> 's"
where
  "visit join fn path nm (Missing e) st = fn path None (Some e) st"
| "visit join fn path nm File st = fn path (Some (FileInfo nm False)) None st"
| "visit join fn path nm (Unreadable e) st = fn path (Some (FileInfo nm True)) (Some e) st"
| "visit join fn path nm (Directory entries) st =
     (case fn path (Some (FileInfo nm True)) None st of
        (Some err1, st') \<Rightarrow> (Some err1, st')
      | (None, st') \<Rightarrow> visitAll join fn path entries st')"
| "visitAll join fn path [] st = (None, st)"
| "visitAll join fn path ((name, node) # rest) st =
     (case visit join fn (join path name) name node st of
        (Some err, st') \<Rightarrow>
          if node = File \<or> err \<noteq> SkipDir then (Some err, st')
          else visitAll join fn path rest st'
      | (None, st') \<Rightarrow> visitAll join fn path rest st')"

text \<open>\<open>filepath.Walk(root, fn)\<close>: \<open>SkipDir\<close> and \<open>SkipAll\<close> at the top are not errors.\<close>

definition Walk :: "filesystem \<Rightarrow> string \<Rightarrow> 's WalkFunc \<Rightarrow> 's \<Rightarrow> error option \<times> 's" where
  "Walk fs root fn st =
     (case visit (Join fs) fn root (Base fs root) (Lstat fs root) st of
        (Some err, st') \<Rightarrow> if err = SkipDir \<or> err = SkipAll then (None, st') else (Some err, st')
      | (None, st') \<Rightarrow> (None, st'))"

section \<open>WithHelm and WithBuiltins\<close>

text \<open>
  The functions of this repository that the file calls and does not define
  (\<open>Load\<close>, \<open>LoadMetadata\<close>, \<open>Metadata.ToChartYaml\<close>, \<open>helm.Load\<close>, \<open>helm.Lint\<close>) are
  parameters, as are Helm and the file system. \<open>Images\<close> reads the image list of an
  extension's metadata. The two keys are what the two calls of \<open>rand.String(12)\<close>
  return.
\<close>

record Message =
  Severity :: int
  Text :: string

record LintResult =
  Messages :: "Message list"
  Errors :: "string list"

record LintOptions =
  WithSubcharts :: bool
  Quiet :: bool
  ValueOpts :: Options

record ('chart, 'vals, 'meta, 'cy) env =
  helm :: "('chart, 'vals) helm_lib"
  disk :: filesystem
  Load :: "string \<Rightarrow> error + 'meta"
  LoadMetadata :: "string \<Rightarrow> error + 'meta"
  Images :: "'meta \<Rightarrow> string list"
  ToChartYaml :: "'meta \<Rightarrow> error + 'cy"
  helmLoad :: "string \<Rightarrow> 'cy \<Rightarrow> error + 'chart"
  helmLint :: "LintOptions \<Rightarrow> string \<Rightarrow> 'vals \<Rightarrow> 'cy \<Rightarrow> LintResult"
  registryKey :: string
  selectorKey :: string

text \<open>The severities of Helm's \<open>lint/support\<close> and \<open>action.HasWarningsOrErrors\<close>.\<close>

definition InfoSev :: int where
  "InfoSev = 1"

definition HasWarningsOrErrors :: "LintResult \<Rightarrow> bool" where
  "HasWarningsOrErrors result =
     (list_ex (\<lambda>msg. Severity msg > InfoSev) (Messages result) \<or> length (Errors result) > 0)"

text \<open>The function handed to \<open>filepath.Walk\<close>; the state is the slice \<open>paths\<close>.\<close>

definition collect :: "filesystem \<Rightarrow> string list WalkFunc" where
  "collect fs path info err paths =
     (case info of
        None \<Rightarrow> (None, paths)
      | Some i \<Rightarrow>
          if Name i = ''Chart.yaml'' then (None, paths @ [Dir fs path])
          else if HasSuffix path ''.tgz'' \<or> HasSuffix path ''.tar.gz'' then (None, paths @ [path])
          else (None, paths))"

text \<open>\<open>for _, p := range paths\<close> runs over the slice as it was when the loop began;
  the second list is the variable \<open>paths\<close> that grows.\<close>

fun discover :: "filesystem \<Rightarrow> string list \<Rightarrow> string list \<Rightarrow> error + string list" where
  "discover fs [] paths = Inr paths"
| "discover fs (p # ps) paths =
     (case Walk fs (Join fs p ''charts'') (collect fs) paths of
        (Some err, paths') \<Rightarrow> Inl err
      | (None, paths') \<Rightarrow> discover fs ps paths')"

text \<open>The verb \<open>%d\<close> on a count.\<close>

fun decimal :: "nat \<Rightarrow> string" where
  "decimal n =
     (if n < 10 then [''0123456789'' ! n]
      else decimal (n div 10) @ [''0123456789'' ! (n mod 10)])"

definition summaryOf :: "nat \<Rightarrow> nat \<Rightarrow> string" where
  "summaryOf n failed = decimal n @ '' chart(s) linted, '' @ decimal failed @ '' chart(s) failed''"

text \<open>What one chart adds to the buffer \<open>message\<close> when it is not skipped.\<close>

definition chartBlock :: "LintOptions \<Rightarrow> string \<Rightarrow> LintResult \<Rightarrow> string" where
  "chartBlock opts path result =
     ''==> Linting '' @ path @ nl
     @ (if length (Messages result) = 0
        then concat (map (\<lambda>err. ''Error '' @ err @ nl) (Errors result))
        else [])
     @ concat (map (\<lambda>msg. if \<not> Quiet opts \<or> Severity msg > InfoSev then Text msg @ nl else [])
                 (Messages result))
     @ nl"

text \<open>The loop over the charts. The state is \<open>message\<close>, \<open>failed\<close> and
  \<open>errorsOrWarnings\<close>; \<open>paths\<close> is the whole slice, read at index 0.\<close>

fun lintCharts ::
  "('chart, 'vals, 'meta, 'cy) env \<Rightarrow> LintOptions \<Rightarrow> 'vals \<Rightarrow> string list \<Rightarrow> string list
     \<Rightarrow> string \<times> nat \<times> nat \<Rightarrow> error + string \<times> nat \<times> nat" where
  "lintCharts env opts vals paths [] st = Inr st"
| "lintCharts env opts vals paths (path # rest) (message, failed, errorsOrWarnings) =
     (case paths of
        [] \<Rightarrow> Inl Panic
      | p0 # _ \<Rightarrow>
          (case LoadMetadata env p0 of
             Inl err \<Rightarrow> Inl err
           | Inr metadata \<Rightarrow>
               (case ToChartYaml env metadata of
                  Inl err \<Rightarrow> Inl err
                | Inr chartYaml \<Rightarrow>
                    (let result = helmLint env opts path vals chartYaml;
                         hasWarningsOrErrors = HasWarningsOrErrors result;
                         errorsOrWarnings' =
                           (if hasWarningsOrErrors then errorsOrWarnings + 1 else errorsOrWarnings)
                     in if Quiet opts \<and> \<not> hasWarningsOrErrors
                        then lintCharts env opts vals paths rest (message, failed, errorsOrWarnings')
                        else lintCharts env opts vals paths rest
                               (message @ chartBlock opts path result,
                                if length (Errors result) \<noteq> 0 then failed + 1 else failed,
                                errorsOrWarnings')))))"

definition WithHelm ::
  "('chart, 'vals, 'meta, 'cy) env \<Rightarrow> LintOptions \<Rightarrow> string list \<Rightarrow> result" where
  "WithHelm env opts paths =
     andThen ([Print (nl @ ''#################### lint by helm ####################'' @ nl)], None)
       (case (if WithSubcharts opts then discover (disk env) paths paths else Inr paths) of
          Inl err \<Rightarrow> ([], Some err)
        | Inr paths' \<Rightarrow>
            (case MergeValues (helm env) (ValueOpts opts) of
               Inl err \<Rightarrow> ([], Some err)
             | Inr vals \<Rightarrow>
                 (case lintCharts env opts vals paths' paths' ([], 0, 0) of
                    Inl err \<Rightarrow> ([], Some err)
                  | Inr (message, failed, errorsOrWarnings) \<Rightarrow>
                      andThen ([Print message], None)
                        (let summary = summaryOf (length paths') failed
                         in if failed > 0 then ([], Some (Failure summary))
                            else if \<not> Quiet opts \<or> errorsOrWarnings > 0
                            then ([Print summary], None)
                            else ([], None)))))"


section \<open>What the rules are to report\<close>



fun field :: "any \<Rightarrow> string list \<Rightarrow> any" where
  "field v [] = v"
| "field (AMap m) (k # ks) = field (index m k) ks"
| "field v (k # ks) = ANil"
















text \<open>
  The same for \<open>WithHelm\<close>: the number of charts with a hard error, the number with a
  warning or an error, and the block of one chart in the printed report.
\<close>

definition failedCount :: "(string \<Rightarrow> LintResult) \<Rightarrow> string list \<Rightarrow> nat" where
  "failedCount lint paths = length (filter (\<lambda>p. length (Errors (lint p)) \<noteq> 0) paths)"

definition warnedCount :: "(string \<Rightarrow> LintResult) \<Rightarrow> string list \<Rightarrow> nat" where
  "warnedCount lint paths = length (filter (\<lambda>p. HasWarningsOrErrors (lint p)) paths)"

definition noWarningsOrErrors :: "LintResult \<Rightarrow> bool" where
  "noWarningsOrErrors result =
     (list_all (\<lambda>msg. Severity msg \<le> InfoSev) (Messages result) \<and> Errors result = [])"

definition reportBlock :: "LintOptions \<Rightarrow> string \<Rightarrow> LintResult \<Rightarrow> string" where
  "reportBlock opts path result =
     (if Quiet opts \<and> noWarningsOrErrors result then []
      else ''==> Linting '' @ path @ nl
           @ (if Messages result = []
              then concat (map (\<lambda>err. ''Error '' @ err @ nl) (Errors result)) else [])
           @ concat (map (\<lambda>msg. Text msg @ nl)
                       (filter (\<lambda>msg. if Quiet opts then Severity msg > InfoSev else True)
                          (Messages result)))
           @ nl)"

definition banner :: string where
  "banner = nl @ ''#################### lint by helm ####################'' @ nl"

section \<open>Example inputs\<close>

text \<open>A Helm that renders the given files whatever the chart and the values, and a
  decoder given by the table of the documents it knows.\<close>

definition rendering :: "files \<Rightarrow> (string \<times> gomap) list \<Rightarrow> (unit, unit) helm_lib" where
  "rendering fs docs =
     \<lparr>MergeValues = (\<lambda>valueOpts. Inr ()),
      ProcessDependenciesWithMerge = (\<lambda>c vals. Inr c),
      CoalesceValues = (\<lambda>c vals. Inr vals),
      Render = (\<lambda>c vals. Inr fs),
      Unmarshal = (\<lambda>y. case map_of docs y of
                           None \<Rightarrow> Inl (Failure ''error converting YAML to JSON'')
                         | Some m \<Rightarrow> Inr m)\<rparr>"

definition imageFiles :: files where
  "imageFiles =
     [(''demo/templates/deployment.yaml'', ''image: docker.io/nginx:1.25''),
      (''demo/templates/NOTES.txt'', ''uses docker.io/redis:7'')]"

definition tok :: string where
  "tok = ''q7w2k9x4m1zp''"

definition container :: "string \<Rightarrow> string \<Rightarrow> any" where
  "container name img = AMap [(''name'', AString name), (''image'', AString img)]"

definition named :: "string \<Rightarrow> any" where
  "named name = AMap [(''name'', AString name)]"

definition webYaml :: string where
  "webYaml = ''{kind: Deployment, metadata: {name: web}, spec: {template: {spec: {nodeSelector: {kubernetes.io/os: q7w2k9x4m1zp}, containers: [{name: web, image: q7w2k9x4m1zp/app:v1}]}}}}''"

definition webDeployment :: gomap where
  "webDeployment =
     [(''kind'', AString ''Deployment''), (''metadata'', named ''web''),
      (''spec'', AMap [(''template'', AMap [(''spec'', AMap
         [(''nodeSelector'', AMap [(''kubernetes.io/os'', AString tok)]),
          (''containers'', ASlice [container ''web'' (tok @ ''/app:v1'')])])])])]"

definition apiYaml :: string where
  "apiYaml = ''{kind: Deployment, metadata: {name: api}, spec: {template: {spec: {containers: [{name: api, image: docker.io/api:2}]}}}}''"

definition apiDeployment :: gomap where
  "apiDeployment =
     [(''kind'', AString ''Deployment''), (''metadata'', named ''api''),
      (''spec'', AMap [(''template'', AMap [(''spec'', AMap
         [(''containers'', ASlice [container ''api'' ''docker.io/api:2''])])])])]"

definition runnerYaml :: string where
  "runnerYaml = ''{kind: Pod, metadata: {name: runner}, spec: {nodeSelector: {kubernetes.io/os: linux}, initContainers: [{name: init, image: busybox}], containers: [{name: main, image: q7w2k9x4m1zp/app:v1}]}}''"

definition runnerPod :: gomap where
  "runnerPod =
     [(''kind'', AString ''Pod''), (''metadata'', named ''runner''),
      (''spec'', AMap
         [(''nodeSelector'', AMap [(''kubernetes.io/os'', AString ''linux'')]),
          (''initContainers'', ASlice [container ''init'' ''busybox'']),
          (''containers'', ASlice [container ''main'' (tok @ ''/app:v1'')])])]"

definition nightlyYaml :: string where
  "nightlyYaml = ''{kind: CronJob, metadata: {name: nightly}, spec: {jobTemplate: {spec: {template: {spec: {nodeSelector: {kubernetes.io/os: q7w2k9x4m1zp}, containers: [{name: foo, image: myregistry.io/foo:1}]}}}}}}''"

definition nightlyCronJob :: gomap where
  "nightlyCronJob =
     [(''kind'', AString ''CronJob''), (''metadata'', named ''nightly''),
      (''spec'', AMap [(''jobTemplate'', AMap [(''spec'', AMap [(''template'', AMap [(''spec'', AMap
         [(''nodeSelector'', AMap [(''kubernetes.io/os'', AString tok)]),
          (''containers'', ASlice [container ''foo'' ''myregistry.io/foo:1''])])])])])])]"

definition agentYaml :: string where
  "agentYaml = ''{kind: DaemonSet, metadata: {name: agent}, spec: {template: {spec: {containers: [{name: agent, image: docker.io/agent:1}]}}}}''"

definition agentDaemonSet :: gomap where
  "agentDaemonSet =
     [(''kind'', AString ''DaemonSet''), (''metadata'', named ''agent''),
      (''spec'', AMap [(''template'', AMap [(''spec'', AMap
         [(''containers'', ASlice [container ''agent'' ''docker.io/agent:1''])])])])]"

definition brokenYaml :: string where
  "brokenYaml = ''{kind: Deployment, metadata: {name: broken}, spec: {replicas: 1}}''"

definition brokenDeployment :: gomap where
  "brokenDeployment =
     [(''kind'', AString ''Deployment''), (''metadata'', named ''broken''),
      (''spec'', AMap [(''replicas'', AFloat 1)])]"

definition namelessYaml :: string where
  "namelessYaml = ''{kind: Pod, spec: {containers: [{name: main, image: docker.io/app:1}]}}''"

definition namelessPod :: gomap where
  "namelessPod =
     [(''kind'', AString ''Pod''),
      (''spec'', AMap [(''containers'', ASlice [container ''main'' ''docker.io/app:1''])])]"

definition decoded :: "(string \<times> gomap) list" where
  "decoded =
     [(webYaml @ nl, webDeployment), (nl @ apiYaml @ nl, apiDeployment),
      (nl @ runnerYaml @ nl, runnerPod), (nl @ nightlyYaml, nightlyCronJob),
      (agentYaml, agentDaemonSet), (brokenYaml, brokenDeployment),
      (namelessYaml, namelessPod)]"

definition workloadFiles :: files where
  "workloadFiles =
     [(''demo/templates/NOTES.txt'', ''installed''),
      (''demo/templates/workloads.yaml'',
       webYaml @ nl @ ''---'' @ nl @ apiYaml @ nl @ ''---'' @ nl @ runnerYaml @ nl @ ''---''
         @ nl @ nightlyYaml)]"

definition agentFiles :: files where
  "agentFiles = [(''demo/templates/agent.yaml'', agentYaml)]"



text \<open>A file system with one chart that has subcharts, lint results by chart name,
  and an environment around them. The metadata of a chart is here its path.\<close>

definition slashJoin :: "string \<Rightarrow> string \<Rightarrow> string" where
  "slashJoin a b = a @ ''/'' @ b"

definition parentOf :: "string \<Rightarrow> string" where
  "parentOf p = rev (tl (dropWhile (\<lambda>c. c \<noteq> CHR ''/'') (rev p)))"

definition lastOf :: "string \<Rightarrow> string" where
  "lastOf p = rev (takeWhile (\<lambda>c. c \<noteq> CHR ''/'') (rev p))"

definition noSuchFile :: "string \<Rightarrow> string \<Rightarrow> error" where
  "noSuchFile call p = Failure (call @ '' '' @ p @ '': no such file or directory'')"

definition demoCharts :: fsnode where
  "demoCharts =
     Directory
       [(''ghost'', Missing (noSuchFile ''lstat'' ''demo/charts/ghost'')),
        (''mysql-1.0.tgz'', File),
        (''redis'', Directory
           [(''Chart.yaml'', File),
            (''templates'',
             Unreadable (Failure ''open demo/charts/redis/templates: permission denied''))])]"

definition demoDisk :: filesystem where
  "demoDisk =
     \<lparr>Join = slashJoin, Dir = parentOf, Base = lastOf,
      Lstat = (\<lambda>p. if p = ''demo/charts'' then demoCharts else Missing (noSuchFile ''lstat'' p))\<rparr>"

definition lintOf :: "string \<Rightarrow> string \<Rightarrow> LintResult" where
  "lintOf path chartYaml =
     (let info = \<lparr>Severity = 1, Text = ''[INFO] '' @ chartYaml @ '': icon is recommended''\<rparr>
      in if path = ''bad''
         then \<lparr>Messages = [info, \<lparr>Severity = 3, Text = ''[ERROR] templates/: parse error''\<rparr>],
               Errors = [''templates/: parse error'']\<rparr>
         else if path = ''warn''
         then \<lparr>Messages = [info, \<lparr>Severity = 2, Text = ''[WARNING] templates/: no resources''\<rparr>],
               Errors = []\<rparr>
         else \<lparr>Messages = [info], Errors = []\<rparr>)"

definition loadOk :: "string \<Rightarrow> error + string" where
  "loadOk p = Inr p"

definition loadNone :: "string \<Rightarrow> error + string" where
  "loadNone p = Inl (noSuchFile ''open'' (p @ ''/extension.yaml''))"



definition demoEnv :: "(string \<Rightarrow> error + string) \<Rightarrow> (unit, unit, string, string) env" where
  "demoEnv load =
     \<lparr>helm = rendering workloadFiles decoded, disk = demoDisk,
      Load = load, LoadMetadata = load, Images = (\<lambda>metadata. []),
      ToChartYaml = (\<lambda>metadata. Inr (metadata @ ''/Chart.yaml'')),
      helmLoad = (\<lambda>p chartYaml. Inr ()),
      helmLint = (\<lambda>opts p vals chartYaml. lintOf p chartYaml),
      registryKey = tok, selectorKey = tok\<rparr>"

definition plain :: LintOptions where
  "plain = \<lparr>WithSubcharts = False, Quiet = False, ValueOpts = \<lparr>Values = [], JSONValues = []\<rparr>\<rparr>"

definition quiet :: LintOptions where
  "quiet = \<lparr>WithSubcharts = False, Quiet = True, ValueOpts = \<lparr>Values = [], JSONValues = []\<rparr>\<rparr>"

definition recursive :: LintOptions where
  "recursive = \<lparr>WithSubcharts = True, Quiet = False, ValueOpts = \<lparr>Values = [], JSONValues = []\<rparr>\<rparr>"

section \<open>Properties of the helpers\<close>

lemma forEach_ok:
  "(\<And>x. x \<in> set xs \<Longrightarrow> snd (body x) = None) \<Longrightarrow>
   forEach body xs = (concat (map (\<lambda>x. fst (body x)) xs), None)"
proof (induction xs)
  case Nil
  then show ?case by simp
next
  case (Cons x xs)
  have "snd (body x) = None" using Cons.prems by simp
  moreover have "forEach body xs = (concat (map (\<lambda>x. fst (body x)) xs), None)"
    using Cons by simp
  ultimately show ?case by (simp add: andThen_def)
qed

lemma HasPrefix_iff: "HasPrefix s p \<longleftrightarrow> (\<exists>b. s = p @ b)"
  by (induction s p rule: HasPrefix.induct) auto

lemma HasSuffix_iff: "HasSuffix s suffix \<longleftrightarrow> (\<exists>a. s = a @ suffix)"
proof
  assume "HasSuffix s suffix"
  then obtain b where "rev s = rev suffix @ b" by (auto simp: HasSuffix_def HasPrefix_iff)
  then have "rev (rev s) = rev (rev suffix @ b)" by simp
  then have "s = rev b @ suffix" by simp
  then show "\<exists>a. s = a @ suffix" by blast
next
  assume "\<exists>a. s = a @ suffix"
  then show "HasSuffix s suffix" by (auto simp: HasSuffix_def HasPrefix_iff)
qed

text \<open>\<open>Contains\<close> is the substring relation.\<close>

lemma Contains_iff: "Contains s sub \<longleftrightarrow> (\<exists>a b. s = a @ sub @ b)"
proof (induction s)
  case Nil
  then show ?case by auto
next
  case (Cons c cs)
  show ?case
  proof
    assume "Contains (c # cs) sub"
    then consider "HasPrefix (c # cs) sub" | "Contains cs sub" by auto
    then show "\<exists>a b. c # cs = a @ sub @ b"
    proof cases
      case 1
      then obtain b where "c # cs = sub @ b" by (auto simp: HasPrefix_iff)
      then have "c # cs = [] @ sub @ b" by simp
      then show ?thesis by blast
    next
      case 2
      then obtain a b where "cs = a @ sub @ b" using Cons.IH by auto
      then have "c # cs = (c # a) @ sub @ b" by simp
      then show ?thesis by blast
    qed
  next
    assume "\<exists>a b. c # cs = a @ sub @ b"
    then obtain a b where ab: "c # cs = a @ sub @ b" by blast
    show "Contains (c # cs) sub"
    proof (cases a)
      case Nil
      then have "HasPrefix (c # cs) sub" using ab by (auto simp: HasPrefix_iff)
      then show ?thesis by simp
    next
      case (Cons a0 as)
      then have "cs = as @ sub @ b" using ab by simp
      then have "Contains cs sub" using Cons.IH by blast
      then show ?thesis by simp
    qed
  qed
qed

section \<open>Rule A\<close>

lemma foundIn_iff:
  "foundIn fs img \<longleftrightarrow> (\<exists>(name, content) \<in> set fs. isYaml name \<and> Contains content img)"
  by (induction fs img rule: foundIn.induct) auto

text \<open>
  C8. When the metadata declares no image, \<open>lintExtensionsImages\<close> prints its header
  and exactly one warning and returns nil. The result is the same for every Helm,
  also one whose rendering fails: no template is rendered and nothing is scanned.
\<close>

theorem lintExtensionsImages_no_images:
  "lintExtensionsImages lib charts extension [] =
     ([Print (nl @ ''Info: lint images'' @ nl),
       Printf (''WARNING: extension %s has no images'' @ nl) [S extension]], None)"
  by (simp add: lintExtensionsImages_def andThen_def)

text \<open>
  C5, as the code has it. When images are declared and the templates render to
  \<open>fs\<close>, \<open>lintExtensionsImages\<close> returns nil and prints, after its header, one
  "has not found" message for each declared entry, in the order of the declaration,
  that is a substring of no rendered file whose name ends in \<open>.yaml\<close> or \<open>.yml\<close>;
  files with other names are not read.
\<close>

theorem lintExtensionsImages_reports:
  assumes "images \<noteq> []"
    and "getTemplateFile lib charts \<lparr>Values = [], JSONValues = []\<rparr> = Inr fs"
  shows "lintExtensionsImages lib charts extension images =
     (Print (nl @ ''Info: lint images'' @ nl)
        # map (\<lambda>img. Printf (''ERROR: image %s has not found'' @ nl) [S img])
            (filter (\<lambda>img. \<not> (\<exists>(name, content) \<in> set fs.
                         isYaml name \<and> (\<exists>a b. content = a @ img @ b))) images),
      None)"
proof -
  have ok: "\<And>img. snd (lintImage fs img) = None" by (simp add: lintImage_def)
  have each: "\<And>img. fst (lintImage fs img) =
      (if (\<exists>(name, content) \<in> set fs. isYaml name \<and> (\<exists>a b. content = a @ img @ b)) then []
       else [Printf (''ERROR: image %s has not found'' @ nl) [S img]])"
    by (simp add: lintImage_def foundIn_iff Contains_iff)
  have "forEach (lintImage fs) images = (concat (map (\<lambda>img. fst (lintImage fs img)) images), None)"
    by (rule forEach_ok) (simp add: ok)
  also have "concat (map (\<lambda>img. fst (lintImage fs img)) images) =
     map (\<lambda>img. Printf (''ERROR: image %s has not found'' @ nl) [S img])
            (filter (\<lambda>img. \<not> (\<exists>(name, content) \<in> set fs.
                         isYaml name \<and> (\<exists>a b. content = a @ img @ b))) images)"
    unfolding each by (induction images) auto
  finally show ?thesis using assms by (simp add: lintExtensionsImages_def andThen_def)
qed

theorem lintExtensionsImages_reports_witness:
  "lintExtensionsImages (rendering imageFiles []) () ''demo''
     [''docker.io/nginx:1.25'', ''docker.io/busybox:1'', ''docker.io/busybox:1''] =
   ([Print (nl @ ''Info: lint images'' @ nl),
     Printf (''ERROR: image %s has not found'' @ nl) [S ''docker.io/busybox:1''],
     Printf (''ERROR: image %s has not found'' @ nl) [S ''docker.io/busybox:1'']], None)"
proof -
  have r: "getTemplateFile (rendering imageFiles []) () \<lparr>Values = [], JSONValues = []\<rparr>
             = Inr imageFiles"
    by (simp add: getTemplateFile_def rendering_def)
  have n: "[''docker.io/nginx:1.25'', ''docker.io/busybox:1'', ''docker.io/busybox:1''] \<noteq> []"
    by simp
  have y: "\<And>img. (\<exists>(name, content) \<in> set imageFiles.
                     isYaml name \<and> (\<exists>a b. content = a @ img @ b)) = foundIn imageFiles img"
    by (simp add: foundIn_iff Contains_iff)
  show ?thesis
    using lintExtensionsImages_reports [OF n r, of "''demo''"]
    unfolding y
    by (simp add: imageFiles_def isYaml_def HasSuffix_def)
qed

text \<open>
  C5, as the claim states it, fails: an image that occurs in a rendered file which
  is not a YAML file (here the chart's \<open>NOTES.txt\<close>) is reported as not found.
\<close>

theorem lintExtensionsImages_reads_yaml_only:
  "Contains ''uses docker.io/redis:7'' ''docker.io/redis:7'' \<and>
   lintExtensionsImages (rendering imageFiles []) () ''demo'' [''docker.io/redis:7''] =
   ([Print (nl @ ''Info: lint images'' @ nl),
     Printf (''ERROR: image %s has not found'' @ nl) [S ''docker.io/redis:7'']], None)"
  by (simp add: lintExtensionsImages_def andThen_def getTemplateFile_def rendering_def
        imageFiles_def lintImage_def isYaml_def HasSuffix_def)

section \<open>Rules B and C\<close>











text \<open>
  C4. A DaemonSet without a \<open>nodeSelector\<close> draws no finding from
  \<open>lintGlobalNodeSelector\<close>, whose \<open>switch\<close> has no case for the kind, while
  \<open>lintGlobalImageRegistry\<close> does check its containers.
\<close>

theorem daemonSet_skipped_by_lintGlobalNodeSelector:
  "Unmarshal (rendering agentFiles decoded) agentYaml = Inr agentDaemonSet
   \<and> field (AMap agentDaemonSet) [''spec'', ''template'', ''spec'', ''nodeSelector''] = ANil
   \<and> lintGlobalNodeSelector (rendering agentFiles decoded) tok () ''demo''
       = ([Print (nl @ ''Info: lint global.nodeSelector'' @ nl)], None)
   \<and> lintGlobalImageRegistry (rendering agentFiles decoded) tok () ''demo''
       = ([Print (nl @ ''Info: lint global.imageRegistry'' @ nl),
           Printf fmtContainer
             [A (AString ''agent''), S ''demo'', S ''demo/templates/agent.yaml'',
              A (AString ''DaemonSet''), A (AString ''agent'')]], None)"
  by code_simp







section \<open>WithHelm\<close>

lemma collect_grows: "\<exists>found. collect fs path info err st = (None, st @ found)"
  by (cases info) (auto simp: collect_def)

lemma visit_collect:
  "\<exists>found. visit join (collect fs) path nm node st = (None, st @ found)"
  "\<exists>found. visitAll join (collect fs) path entries st = (None, st @ found)"
proof (induction join "collect fs" path nm node st and join "collect fs" path entries st
       rule: visit_visitAll.induct)
  case (1 join path nm e st)
  then show ?case using collect_grows by simp
next
  case (2 join path nm st)
  then show ?case using collect_grows by simp
next
  case (3 join path nm e st)
  then show ?case using collect_grows by simp
next
  case (4 join path nm entries st)
  obtain f1 where f1: "collect fs path (Some (FileInfo nm True)) None st = (None, st @ f1)"
    using collect_grows by blast
  obtain f2 where "visitAll join (collect fs) path entries (st @ f1) = (None, (st @ f1) @ f2)"
    using 4 [of None "st @ f1"] f1 by auto
  then show ?case using f1 by simp
next
  case (5 join path st)
  then show ?case by simp
next
  case (6 join path name node rest st)
  obtain f1 where f1: "visit join (collect fs) (join path name) name node st = (None, st @ f1)"
    using 6(1) by blast
  obtain f2 where "visitAll join (collect fs) path rest (st @ f1) = (None, (st @ f1) @ f2)"
    using 6(2) [of None "st @ f1"] f1 by auto
  then show ?case using f1 by simp
qed

lemma Walk_collect: "\<exists>found. Walk fs root (collect fs) st = (None, st @ found)"
proof -
  obtain found where
    "visit (Join fs) (collect fs) root (Base fs root) (Lstat fs root) st = (None, st @ found)"
    using visit_collect(1) by blast
  then show ?thesis by (simp add: Walk_def)
qed

lemma discover_grows: "\<exists>found. discover fs ps paths = Inr (paths @ found)"
proof (induction ps arbitrary: paths)
  case Nil
  then show ?case by simp
next
  case (Cons p ps)
  obtain f1 where f1: "Walk fs (Join fs p ''charts'') (collect fs) paths = (None, paths @ f1)"
    using Walk_collect by blast
  obtain f2 where "discover fs ps (paths @ f1) = Inr ((paths @ f1) @ f2)"
    using Cons by blast
  then show ?case using f1 by simp
qed

lemma discover_missing:
  "Lstat fs (Join fs p ''charts'') = Missing e \<Longrightarrow> discover fs [p] paths = Inr paths"
  by (simp add: Walk_def collect_def)

lemma HasWarningsOrErrors_iff: "HasWarningsOrErrors r \<longleftrightarrow> \<not> noWarningsOrErrors r"
  by (auto simp: HasWarningsOrErrors_def noWarningsOrErrors_def list_ex_iff list_all_iff
        not_le [symmetric])

lemma chartBlock_reportBlock:
  "(if Quiet opts \<and> \<not> HasWarningsOrErrors r then [] else chartBlock opts path r)
     = reportBlock opts path r"
proof -
  have m: "concat (map (\<lambda>msg. if \<not> Quiet opts \<or> Severity msg > InfoSev then Text msg @ nl else []) ms)
      = concat (map (\<lambda>msg. Text msg @ nl)
                       (filter (\<lambda>msg. if Quiet opts then Severity msg > InfoSev else True) ms))"
    for ms
    by (induction ms) auto
  show ?thesis
    unfolding chartBlock_def reportBlock_def HasWarningsOrErrors_iff m
    by simp
qed

lemma lintCharts_closed:
  assumes "LoadMetadata env p0 = Inr md" "ToChartYaml env md = Inr cy"
  shows "lintCharts env opts vals (p0 # others) rest (message, failed, eow) =
     Inr (message @ concat (map (\<lambda>p. reportBlock opts p (helmLint env opts p vals cy)) rest),
          failed + failedCount (\<lambda>p. helmLint env opts p vals cy) rest,
          eow + warnedCount (\<lambda>p. helmLint env opts p vals cy) rest)"
proof (induction rest arbitrary: message failed eow)
  case Nil
  then show ?case by (simp add: failedCount_def warnedCount_def)
next
  case (Cons path rest)
  let ?r = "helmLint env opts path vals cy"
  show ?case
  proof (cases "Quiet opts \<and> \<not> HasWarningsOrErrors ?r")
    case True
    then have e: "Errors ?r = []" by (simp add: HasWarningsOrErrors_def)
    have b: "reportBlock opts path ?r = []"
      using True chartBlock_reportBlock [of opts ?r path] by simp
    show ?thesis using True e b assms
      by (simp add: Cons.IH failedCount_def warnedCount_def)
  next
    case False
    have b: "reportBlock opts path ?r = chartBlock opts path ?r"
      using False chartBlock_reportBlock [of opts ?r path] by auto
    show ?thesis using False b assms
      by (auto simp: Cons.IH failedCount_def warnedCount_def)
  qed
qed

lemma WithHelm_closed:
  assumes "(if WithSubcharts opts then discover (disk env) paths paths else Inr paths) = Inr all"
    and "MergeValues (helm env) (ValueOpts opts) = Inr vals"
    and "all = [] \<or> (LoadMetadata env (hd all) = Inr md \<and> ToChartYaml env md = Inr cy)"
  shows "WithHelm env opts paths =
     ([Print banner,
       Print (concat (map (\<lambda>p. reportBlock opts p (helmLint env opts p vals cy)) all))]
      @ (if failedCount (\<lambda>p. helmLint env opts p vals cy) all = 0
            \<and> (\<not> Quiet opts \<or> warnedCount (\<lambda>p. helmLint env opts p vals cy) all > 0)
         then [Print (summaryOf (length all) 0)] else []),
      if failedCount (\<lambda>p. helmLint env opts p vals cy) all > 0
      then Some (Failure (summaryOf (length all) (failedCount (\<lambda>p. helmLint env opts p vals cy) all)))
      else None)"
proof -
  have loop: "lintCharts env opts vals all all ([], 0, 0) =
     Inr (concat (map (\<lambda>p. reportBlock opts p (helmLint env opts p vals cy)) all),
          failedCount (\<lambda>p. helmLint env opts p vals cy) all,
          warnedCount (\<lambda>p. helmLint env opts p vals cy) all)"
  proof (cases all)
    case Nil
    then show ?thesis by (simp add: failedCount_def warnedCount_def)
  next
    case (Cons p0 others)
    then have "LoadMetadata env p0 = Inr md" "ToChartYaml env md = Inr cy"
      using assms(3) by simp_all
    from lintCharts_closed [OF this, of opts vals others all "[]" 0 0]
    show ?thesis using Cons by simp
  qed
  show ?thesis
    unfolding WithHelm_def assms(1) using assms(2) loop
    by (simp add: andThen_def banner_def Let_def)
qed


lemma lintCharts_cong:
  assumes "LoadMetadata env' p0 = LoadMetadata env p0"
    and "ToChartYaml env' = ToChartYaml env"
    and "\<And>md cy p. LoadMetadata env p0 = Inr md \<Longrightarrow> ToChartYaml env md = Inr cy
           \<Longrightarrow> helmLint env' opts p vals cy = helmLint env opts p vals cy"
  shows "lintCharts env' opts vals (p0 # others) rest st
           = lintCharts env opts vals (p0 # others) rest st"
proof (induction rest arbitrary: st)
  case Nil
  then show ?case by simp
next
  case (Cons path rest)
  obtain message failed eow where st: "st = (message, failed, eow)" by (cases st)
  show ?case
  proof (cases "LoadMetadata env p0")
    case (Inl err)
    then show ?thesis using assms(1) st by simp
  next
    case md: (Inr md)
    show ?thesis
    proof (cases "ToChartYaml env md")
      case (Inl err)
      then show ?thesis using assms(1,2) md st by simp
    next
      case (Inr cy)
      have "helmLint env' opts path vals cy = helmLint env opts path vals cy"
        using assms(3) md Inr by simp
      then show ?thesis using assms(1,2) md Inr st by (simp add: Cons.IH Let_def)
    qed
  qed
qed

lemma discover_Cons:
  "\<exists>found. discover fs ps (p0 # others) = Inr (p0 # others @ found)"
  using discover_grows [of fs ps "p0 # others"] by simp

lemma WithHelm_cong:
  assumes "disk env' = disk env"
    and "MergeValues (helm env') = MergeValues (helm env)"
    and "LoadMetadata env' p0 = LoadMetadata env p0"
    and "ToChartYaml env' = ToChartYaml env"
    and "\<And>md cy p vals. LoadMetadata env p0 = Inr md \<Longrightarrow> ToChartYaml env md = Inr cy
           \<Longrightarrow> helmLint env' opts p vals cy = helmLint env opts p vals cy"
  shows "WithHelm env' opts (p0 # others) = WithHelm env opts (p0 # others)"
proof -
  obtain more where all:
    "(if WithSubcharts opts then discover (disk env) (p0 # others) (p0 # others)
      else Inr (p0 # others)) = Inr (p0 # more)"
    using discover_Cons [of "disk env" "p0 # others" p0 others] by (cases "WithSubcharts opts") auto
  have "lintCharts env' opts vals (p0 # more) (p0 # more) st
          = lintCharts env opts vals (p0 # more) (p0 # more) st" for vals st
    by (rule lintCharts_cong) (use assms in auto)
  then show ?thesis
    unfolding WithHelm_def assms(1) assms(2) all
    by (cases "MergeValues (helm env) (ValueOpts opts)") (simp_all del: lintCharts.simps)
qed

text \<open>
  C1, as the code has it. When the values merge and the metadata of the first path
  loads and converts, \<open>WithHelm\<close> returns an error exactly when some chart of the
  list (the given paths and the subcharts found) has a hard error, and the error is
  the summary with the length of the list and the number of such charts; when none
  has and quiet mode is off, the summary is the last thing printed. The templates
  rendered, the decoder, the declared images and the keys, which are all the three
  extension rules read, do not change what \<open>WithHelm\<close> does.
\<close>

theorem WithHelm_outcome:
  assumes "(if WithSubcharts opts then discover (disk env) paths paths else Inr paths) = Inr all"
    and "MergeValues (helm env) (ValueOpts opts) = Inr vals"
    and "all = [] \<or> (LoadMetadata env (hd all) = Inr md \<and> ToChartYaml env md = Inr cy)"
  shows "snd (WithHelm env opts paths) =
           (if \<exists>p \<in> set all. length (Errors (helmLint env opts p vals cy)) \<noteq> 0
            then Some (Failure (summaryOf (length all)
                                  (failedCount (\<lambda>p. helmLint env opts p vals cy) all)))
            else None)
         \<and> ((\<forall>p \<in> set all. length (Errors (helmLint env opts p vals cy)) = 0) \<and> \<not> Quiet opts
              \<longrightarrow> last (fst (WithHelm env opts paths)) = Print (summaryOf (length all) 0))
         \<and> WithHelm (env\<lparr>helm := (helm env)\<lparr>Render := r, Unmarshal := u\<rparr>, Images := i,
                           registryKey := k1, selectorKey := k2\<rparr>) opts paths
             = WithHelm env opts paths"
proof -
  let ?lint = "\<lambda>p. helmLint env opts p vals cy"
  have f: "failedCount ?lint all > 0 \<longleftrightarrow> (\<exists>p \<in> set all. length (Errors (?lint p)) \<noteq> 0)"
    by (auto simp: failedCount_def filter_empty_conv)
  have same: "WithHelm (env\<lparr>helm := (helm env)\<lparr>Render := r, Unmarshal := u\<rparr>, Images := i,
                           registryKey := k1, selectorKey := k2\<rparr>) opts paths
             = WithHelm env opts paths"
  proof (cases paths)
    case Nil
    then show ?thesis
      by (cases "MergeValues (helm env) (ValueOpts opts)") (simp_all add: WithHelm_def)
  next
    case (Cons p0 others)
    show ?thesis unfolding Cons by (rule WithHelm_cong) simp_all
  qed
  have 1: "snd (WithHelm env opts paths) =
           (if \<exists>p \<in> set all. length (Errors (?lint p)) \<noteq> 0
            then Some (Failure (summaryOf (length all) (failedCount ?lint all)))
            else None)"
    unfolding WithHelm_closed [OF assms] using f by simp
  have 2: "(\<forall>p \<in> set all. length (Errors (?lint p)) = 0) \<and> \<not> Quiet opts
              \<longrightarrow> last (fst (WithHelm env opts paths)) = Print (summaryOf (length all) 0)"
    unfolding WithHelm_closed [OF assms] using f by auto
  from 1 2 same show ?thesis by (intro conjI)
qed

text \<open>
  C7. When the run reaches its output, the second thing \<open>WithHelm\<close> prints is the
  buffer made of one block for each chart, in order. In quiet mode the block of a
  chart with no message above the informational severity and no error is empty; the
  block of any other chart is its \<open>==> Linting\<close> header, the raw errors when there is
  no message at all, the messages of severity above informational, and an empty
  line.
\<close>

theorem WithHelm_quiet_report:
  assumes "(if WithSubcharts opts then discover (disk env) paths paths else Inr paths) = Inr all"
    and "MergeValues (helm env) (ValueOpts opts) = Inr vals"
    and "all = [] \<or> (LoadMetadata env (hd all) = Inr md \<and> ToChartYaml env md = Inr cy)"
  shows "take 2 (fst (WithHelm env opts paths)) =
           [Print banner,
            Print (concat (map (\<lambda>p. reportBlock opts p (helmLint env opts p vals cy)) all))]
         \<and> (\<forall>p result. Quiet opts \<and> noWarningsOrErrors result \<longrightarrow> reportBlock opts p result = [])
         \<and> (\<forall>p result. Quiet opts \<and> \<not> noWarningsOrErrors result \<longrightarrow>
               reportBlock opts p result =
                 ''==> Linting '' @ p @ nl
                 @ (if Messages result = []
                    then concat (map (\<lambda>err. ''Error '' @ err @ nl) (Errors result)) else [])
                 @ concat (map (\<lambda>msg. Text msg @ nl)
                             (filter (\<lambda>msg. Severity msg > InfoSev) (Messages result)))
                 @ nl)"
  unfolding WithHelm_closed [OF assms] by (simp add: reportBlock_def)

text \<open>
  C6, as the code has it. The function handed to \<open>filepath.Walk\<close> returns nil whatever
  error it is given, so the discovery of subcharts never fails: it keeps the paths
  it was given and appends what it found, and a root whose \<open>charts\<close> directory does
  not exist adds nothing.
\<close>

theorem discover_ignores_walk_errors:
  "(\<exists>found. discover fs ps paths = Inr (paths @ found))
   \<and> (\<forall>e. Lstat fs (Join fs p ''charts'') = Missing e \<longrightarrow> discover fs [p] paths = Inr paths)"
  using discover_grows discover_missing by blast


theorem WithHelm_outcome_witness:
  "snd (WithHelm (demoEnv loadOk) plain [''bad'', ''good''])
     = Some (Failure ''2 chart(s) linted, 1 chart(s) failed'')
   \<and> last (fst (WithHelm (demoEnv loadOk) plain [''good'']))
       = Print ''1 chart(s) linted, 0 chart(s) failed''
   \<and> last (fst (WithHelm (demoEnv loadOk) recursive [''demo'']))
       = Print ''3 chart(s) linted, 0 chart(s) failed''"
proof -
  have d: "(if WithSubcharts plain then discover (disk (demoEnv loadOk)) ps ps else Inr ps) = Inr ps"
    for ps by (simp add: plain_def)
  have m: "MergeValues (helm (demoEnv loadOk)) (ValueOpts plain) = Inr ()"
    by (simp add: demoEnv_def rendering_def)
  have l: "ps = [] \<or> (LoadMetadata (demoEnv loadOk) (hd ps) = Inr (hd ps)
              \<and> ToChartYaml (demoEnv loadOk) (hd ps) = Inr (hd ps @ ''/Chart.yaml''))" for ps
    by (simp add: demoEnv_def loadOk_def)
  note two = WithHelm_outcome [OF d m l, of "[''bad'', ''good'']"]
  note one = WithHelm_outcome [OF d m l, of "[''good'']"]
  have e2: "(if \<exists>p \<in> set [''bad'', ''good''].
                 length (Errors (helmLint (demoEnv loadOk) plain p ()
                                   (hd [''bad'', ''good''] @ ''/Chart.yaml''))) \<noteq> 0
            then Some (Failure (summaryOf (length [''bad'', ''good''])
                   (failedCount (\<lambda>p. helmLint (demoEnv loadOk) plain p ()
                                   (hd [''bad'', ''good''] @ ''/Chart.yaml'')) [''bad'', ''good''])))
            else None) = Some (Failure ''2 chart(s) linted, 1 chart(s) failed'')"
    by code_simp
  have h1: "(\<forall>p \<in> set [''good''].
               length (Errors (helmLint (demoEnv loadOk) plain p () (hd [''good''] @ ''/Chart.yaml''))) = 0)
            \<and> \<not> Quiet plain"
    by code_simp
  have s1: "summaryOf (length [''good'']) 0 = ''1 chart(s) linted, 0 chart(s) failed''"
    by code_simp
  have d3: "(if WithSubcharts recursive
             then discover (disk (demoEnv loadOk)) [''demo''] [''demo''] else Inr [''demo''])
            = Inr [''demo'', ''demo/charts/mysql-1.0.tgz'', ''demo/charts/redis'']"
    by code_simp
  have m3: "MergeValues (helm (demoEnv loadOk)) (ValueOpts recursive) = Inr ()"
    by (simp add: demoEnv_def rendering_def)
  have l3: "[''demo'', ''demo/charts/mysql-1.0.tgz'', ''demo/charts/redis''] = []
            \<or> (LoadMetadata (demoEnv loadOk)
                  (hd [''demo'', ''demo/charts/mysql-1.0.tgz'', ''demo/charts/redis'']) = Inr ''demo''
               \<and> ToChartYaml (demoEnv loadOk) ''demo'' = Inr ''demo/Chart.yaml'')"
    by (simp add: demoEnv_def loadOk_def)
  note three = WithHelm_outcome [OF d3 m3 l3]
  have h3: "(\<forall>p \<in> set [''demo'', ''demo/charts/mysql-1.0.tgz'', ''demo/charts/redis''].
               length (Errors (helmLint (demoEnv loadOk) recursive p () ''demo/Chart.yaml'')) = 0)
            \<and> \<not> Quiet recursive"
    by code_simp
  have s3: "summaryOf (length [''demo'', ''demo/charts/mysql-1.0.tgz'', ''demo/charts/redis'']) 0
              = ''3 chart(s) linted, 0 chart(s) failed''"
    by code_simp
  have 3: "last (fst (WithHelm (demoEnv loadOk) recursive [''demo'']))
             = Print ''3 chart(s) linted, 0 chart(s) failed''"
    using three [THEN conjunct2, THEN conjunct1] h3 s3 by simp
  show ?thesis
    using two [THEN conjunct1] one [THEN conjunct2, THEN conjunct1] e2 h1 s1 3 by simp
qed

text \<open>
  C1, as the claim states it, fails: when the metadata cannot be loaded \<open>WithHelm\<close>
  returns that error although no chart has a hard error.
\<close>

theorem WithHelm_error_without_failed_chart:
  "length (Errors (helmLint (demoEnv loadNone) plain ''good'' () ''good/Chart.yaml'')) = 0
   \<and> WithHelm (demoEnv loadNone) plain [''good'']
       = ([Print banner], Some (Failure ''open good/extension.yaml: no such file or directory''))"
  by code_simp

theorem WithHelm_quiet_report_witness:
  "take 2 (fst (WithHelm (demoEnv loadOk) quiet [''good'', ''warn'', ''bad''])) =
     [Print banner,
      Print (''==> Linting warn'' @ nl @ ''[WARNING] templates/: no resources'' @ nl @ nl
             @ ''==> Linting bad'' @ nl @ ''[ERROR] templates/: parse error'' @ nl @ nl)]
   \<and> reportBlock quiet ''good'' (lintOf ''good'' ''good/Chart.yaml'') = []
   \<and> reportBlock quiet ''warn'' (lintOf ''warn'' ''good/Chart.yaml'')
       = ''==> Linting warn'' @ nl @ ''[WARNING] templates/: no resources'' @ nl @ nl"
proof -
  have d: "(if WithSubcharts quiet
            then discover (disk (demoEnv loadOk)) [''good'', ''warn'', ''bad''] [''good'', ''warn'', ''bad'']
            else Inr [''good'', ''warn'', ''bad'']) = Inr [''good'', ''warn'', ''bad'']"
    by (simp add: quiet_def)
  have m: "MergeValues (helm (demoEnv loadOk)) (ValueOpts quiet) = Inr ()"
    by (simp add: demoEnv_def rendering_def)
  have l: "[''good'', ''warn'', ''bad''] = []
           \<or> (LoadMetadata (demoEnv loadOk) (hd [''good'', ''warn'', ''bad'']) = Inr ''good''
              \<and> ToChartYaml (demoEnv loadOk) ''good'' = Inr ''good/Chart.yaml'')"
    by (simp add: demoEnv_def loadOk_def)
  note t = WithHelm_quiet_report [OF d m l]
  have b: "concat (map (\<lambda>p. reportBlock quiet p
                          (helmLint (demoEnv loadOk) quiet p () ''good/Chart.yaml''))
                     [''good'', ''warn'', ''bad''])
           = ''==> Linting warn'' @ nl @ ''[WARNING] templates/: no resources'' @ nl @ nl
             @ ''==> Linting bad'' @ nl @ ''[ERROR] templates/: parse error'' @ nl @ nl"
    by code_simp
  have g: "Quiet quiet \<and> noWarningsOrErrors (lintOf ''good'' ''good/Chart.yaml'')"
    by code_simp
  have w: "Quiet quiet \<and> \<not> noWarningsOrErrors (lintOf ''warn'' ''good/Chart.yaml'')"
    by code_simp
  have wb: "''==> Linting '' @ ''warn'' @ nl
            @ (if Messages (lintOf ''warn'' ''good/Chart.yaml'') = []
               then concat (map (\<lambda>err. ''Error '' @ err @ nl)
                              (Errors (lintOf ''warn'' ''good/Chart.yaml''))) else [])
            @ concat (map (\<lambda>msg. Text msg @ nl)
                        (filter (\<lambda>msg. Severity msg > InfoSev)
                           (Messages (lintOf ''warn'' ''good/Chart.yaml''))))
            @ nl
            = ''==> Linting warn'' @ nl @ ''[WARNING] templates/: no resources'' @ nl @ nl"
    by code_simp
  from t have 1: "take 2 (fst (WithHelm (demoEnv loadOk) quiet [''good'', ''warn'', ''bad''])) =
     [Print banner,
      Print (concat (map (\<lambda>p. reportBlock quiet p
                          (helmLint (demoEnv loadOk) quiet p () ''good/Chart.yaml''))
                     [''good'', ''warn'', ''bad'']))]"
    by (rule conjunct1)
  from t g have 2: "reportBlock quiet ''good'' (lintOf ''good'' ''good/Chart.yaml'') = []"
    by blast
  from t w have 3: "reportBlock quiet ''warn'' (lintOf ''warn'' ''good/Chart.yaml'')
      = ''==> Linting '' @ ''warn'' @ nl
            @ (if Messages (lintOf ''warn'' ''good/Chart.yaml'') = []
               then concat (map (\<lambda>err. ''Error '' @ err @ nl)
                              (Errors (lintOf ''warn'' ''good/Chart.yaml''))) else [])
            @ concat (map (\<lambda>msg. Text msg @ nl)
                        (filter (\<lambda>msg. Severity msg > InfoSev)
                           (Messages (lintOf ''warn'' ''good/Chart.yaml''))))
            @ nl"
    by blast
  show ?thesis
    unfolding 1 2 3 b wb by simp
qed

theorem discover_ignores_walk_errors_witness:
  "Lstat demoDisk (Join demoDisk ''other'' ''charts'')
     = Missing (noSuchFile ''lstat'' ''other/charts'')
   \<and> discover demoDisk [''other''] [''other''] = Inr [''other'']
   \<and> discover demoDisk [''demo''] [''demo'']
       = Inr [''demo'', ''demo/charts/mysql-1.0.tgz'', ''demo/charts/redis'']"
proof -
  have m: "Lstat demoDisk (Join demoDisk ''other'' ''charts'')
             = Missing (noSuchFile ''lstat'' ''other/charts'')"
    by code_simp
  have t: "discover demoDisk [''demo''] [''demo'']
       = Inr [''demo'', ''demo/charts/mysql-1.0.tgz'', ''demo/charts/redis'']"
    by code_simp
  from discover_ignores_walk_errors [of demoDisk "[''other'']" "[''other'']" "''other''"] m
  have "discover demoDisk [''other''] [''other''] = Inr [''other'']" by blast
  with m t show ?thesis by simp
qed

text \<open>
  C6, as the claim states it, fails: with subchart recursion on and no \<open>charts\<close>
  directory under the root, \<open>WithHelm\<close> lints the chart and returns nil.
\<close>

theorem WithHelm_proceeds_without_charts_directory:
  "WithSubcharts recursive
   \<and> Lstat (disk (demoEnv loadOk)) (Join (disk (demoEnv loadOk)) ''good'' ''charts'')
       = Missing (noSuchFile ''lstat'' ''good/charts'')
   \<and> WithHelm (demoEnv loadOk) recursive [''good'']
       = ([Print banner,
           Print (''==> Linting good'' @ nl @ ''[INFO] good/Chart.yaml: icon is recommended''
                  @ nl @ nl),
           Print ''1 chart(s) linted, 0 chart(s) failed''], None)"
  by code_simp


end
